theory Spec2Isabelle
  imports Complex_Main
begin

section \<open>Errors\<close>

text \<open>
  The exceptions of the training script \<^verbatim>\<open>research/modelling/tweet_torch.py\<close> and of
  the library calls it makes, as values. A function that can raise returns
  \<open>py_error + 'a\<close>, with \<open>Inl\<close> for the exception.
\<close>

datatype py_error = IndexError | ValueError | TypeError | RuntimeError

section \<open>Sample weights (TweetDataset.compute_sample_weights)\<close>

text \<open>
  \<^verbatim>\<open>
  def compute_sample_weights(self, labels):
      class_sample_counts = np.unique(labels, return_counts=True)[1]
      class_weights = 1. / class_sample_counts
      sample_weights = class_weights[labels]
      return sample_weights
  \<close>
  The labels are the category codes that line 73 of the script assigns
  (\<^verbatim>\<open>rename_categories([0,1,2,3])\<close>), turned into a Python list: non-negative integers,
  modelled as \<open>nat\<close>. The weights are 64-bit floats \<^verbatim>\<open>1. / count\<close>; the model keeps them
  as exact rationals.
\<close>

text \<open>\<^verbatim>\<open>np.unique(xs, return_counts=True)\<close>: the sorted distinct values, and for each of
  them the number of times it occurs.\<close>

definition np_unique_counts :: "nat list \<Rightarrow> nat list \<times> nat list" where
  "np_unique_counts xs = (let u = sort (remdups xs) in (u, map (count_list xs) u))"

text \<open>\<^verbatim>\<open>a[idx]\<close> for an array \<open>a\<close> and a list \<open>idx\<close> of non-negative integers: the
  elements at these positions, IndexError when one of them is out of bounds.\<close>

definition np_take :: "'a list \<Rightarrow> nat list \<Rightarrow> py_error + 'a list" where
  "np_take a idx =
     (if list_all (\<lambda>i. i < length a) idx then Inr (map (\<lambda>i. a ! i) idx) else Inl IndexError)"

definition compute_sample_weights :: "nat list \<Rightarrow> py_error + rat list" where
  "compute_sample_weights labels =
     (let class_sample_counts = snd (np_unique_counts labels);
          class_weights = map (\<lambda>c. 1 / of_nat c) class_sample_counts
      in np_take class_weights labels)"

text \<open>The weight the data model asks for: the reciprocal of the frequency of the
  example's class in the list.\<close>

definition inverse_class_frequency :: "nat list \<Rightarrow> rat list" where
  "inverse_class_frequency labels = map (\<lambda>l. 1 / of_nat (count_list labels l)) labels"

text \<open>The sum over the examples of weight times indicator(class = c).\<close>

definition class_mass :: "nat \<Rightarrow> nat list \<Rightarrow> rat list \<Rightarrow> rat" where
  "class_mass c labels ws = (\<Sum>(l, w) \<leftarrow> zip labels ws. if l = c then w else 0)"

text \<open>Every class occurring in the list is counted: the array of counts holds, at the
  position of the class, how often the class occurs.\<close>

definition classes_counted :: "nat list \<Rightarrow> bool" where
  "classes_counted labels =
     (let class_sample_counts = snd (np_unique_counts labels)
      in list_all (\<lambda>c. c < length class_sample_counts \<and>
                        class_sample_counts ! c = count_list labels c) labels)"

section \<open>Tensors and layers\<close>

text \<open>
  A two-dimensional tensor of shape (batch, width): the width is kept beside the rows,
  so that a tensor with no rows still has one. The numbers are 32-bit floats in the
  program and exact rationals here; the claims below are about shapes and about which
  function is called, not about rounding.
\<close>

record tensor =
  cols :: nat
  rows :: "rat list list"

definition tensor_ok :: "tensor \<Rightarrow> bool" where
  "tensor_ok t = list_all (\<lambda>r. length r = cols t) (rows t)"

definition numel :: "tensor \<Rightarrow> nat" where
  "numel t = length (concat (rows t))"

text \<open>Cutting a flat list into rows of \<open>k\<close> elements (row-major order).\<close>

fun chunks :: "nat \<Rightarrow> 'a list \<Rightarrow> 'a list list" where
  "chunks k xs = (if k = 0 \<or> xs = [] then [] else take k xs # chunks k (drop k xs))"

declare chunks.simps [simp del]

text \<open>\<^verbatim>\<open>t.view(-1, k)\<close>: the same elements as rows of width \<open>k\<close>. RuntimeError when the
  number of elements is not a multiple of \<open>k\<close>, and for \<open>k = 0\<close> (the size of the
  dimension -1 cannot be inferred or the shape is invalid).\<close>

definition view_rows :: "nat \<Rightarrow> tensor \<Rightarrow> py_error + tensor" where
  "view_rows k t =
     (if k = 0 \<or> numel t mod k \<noteq> 0 then Inl RuntimeError
      else Inr \<lparr>cols = k, rows = chunks k (concat (rows t))\<rparr>)"

text \<open>\<^verbatim>\<open>torch.cat([a, b], dim=1)\<close>: TypeError when an operand is \<^verbatim>\<open>None\<close>, RuntimeError
  when the batch sizes differ, else the rows side by side.\<close>

definition cat_dim1 :: "tensor \<Rightarrow> tensor option \<Rightarrow> py_error + tensor" where
  "cat_dim1 a b' =
     (case b' of
        None \<Rightarrow> Inl TypeError
      | Some b \<Rightarrow>
          if length (rows a) \<noteq> length (rows b) then Inl RuntimeError
          else Inr \<lparr>cols = cols a + cols b, rows = map2 (@) (rows a) (rows b)\<rparr>)"

text \<open>
  The layers of \<^verbatim>\<open>torch.nn\<close> that the model uses. \<^verbatim>\<open>Linear(i, o)\<close> owns a weight of
  shape (o, i) and a bias of shape (o); their values are set by the library at random
  and then trained, so they are arbitrary here: functions of the indices.
\<close>

datatype layer =
    Dropout rat
  | Linear nat nat "nat \<Rightarrow> nat \<Rightarrow> rat" "nat \<Rightarrow> rat"
  | ReLU

text \<open>
  Applying a layer to a batch. Dropout multiplies every element by a factor (1 in
  evaluation mode; 0 or \<open>1 / (1 - p)\<close>, chosen at random, in training mode): the factors
  are the argument \<open>factors\<close>. Linear raises RuntimeError when the width of its input is not
  its \<open>in_features\<close>.
\<close>

fun apply_layer :: "(nat \<Rightarrow> nat \<Rightarrow> rat) \<Rightarrow> layer \<Rightarrow> tensor \<Rightarrow> py_error + tensor" where
  "apply_layer factors (Dropout p) t =
     Inr \<lparr>cols = cols t,
          rows = map (\<lambda>(i, r). map (\<lambda>(j, x). factors i j * x) (zip [0..<length r] r))
                     (zip [0..<length (rows t)] (rows t))\<rparr>"
| "apply_layer factors (Linear i o' w b) t =
     (if cols t \<noteq> i then Inl RuntimeError
      else Inr \<lparr>cols = o',
                rows = map (\<lambda>r. map (\<lambda>k. (\<Sum>j \<leftarrow> [0..<i]. w k j * r ! j) + b k) [0..<o'])
                           (rows t)\<rparr>)"
| "apply_layer factors ReLU t =
     Inr \<lparr>cols = cols t, rows = map (map (max 0)) (rows t)\<rparr>"

text \<open>\<^verbatim>\<open>torch.nn.Sequential\<close>: the layers one after the other; the first exception ends
  the call.\<close>

fun sequential :: "(nat \<Rightarrow> nat \<Rightarrow> rat) \<Rightarrow> layer list \<Rightarrow> tensor \<Rightarrow> py_error + tensor" where
  "sequential factors [] t = Inr t"
| "sequential factors (l # ls) t =
     (case apply_layer factors l t of Inl e \<Rightarrow> Inl e | Inr t' \<Rightarrow> sequential factors ls t')"

section \<open>The classifier (ViralityClassifier)\<close>

text \<open>The loss functions of \<^verbatim>\<open>torch.nn.functional\<close> are not part of the script: a value of
  this type is the call that \<^verbatim>\<open>compute_loss\<close> makes, with its arguments.\<close>

datatype loss =
    mse_loss "rat list" "rat list"
  | binary_cross_entropy_with_logits tensor "int list"
  | cross_entropy tensor "int list"



text \<open>
  \<^verbatim>\<open>
  def compute_loss(self, logits, labels):
      logits = logits.view(-1, self.n_labels)
      labels = labels.view(-1)
      if self.n_labels == 1:
          loss = torch.nn.functional.mse_loss(logits.view(-1), labels.float())
      elif self.n_labels == 2:
          loss = torch.nn.functional.binary_cross_entropy_with_logits(logits, labels)
      else:
          loss = torch.nn.functional.cross_entropy(logits, labels)
      return loss
  \<close>
  The labels are an integer tensor, given flattened (\<^verbatim>\<open>labels.view(-1)\<close>).
\<close>

definition compute_loss :: "nat \<Rightarrow> tensor \<Rightarrow> int list \<Rightarrow> py_error + loss" where
  "compute_loss n_labels logits labels =
     (case view_rows n_labels logits of
        Inl e \<Rightarrow> Inl e
      | Inr logits' \<Rightarrow>
          if n_labels = 1 then Inr (mse_loss (concat (rows logits')) (map of_int labels))
          else if n_labels = 2 then Inr (binary_cross_entropy_with_logits logits' labels)
          else Inr (cross_entropy logits' labels))"

text \<open>The values of the parameters of the four linear layers.\<close>

record parameters =
  processor_w1 :: "nat \<Rightarrow> nat \<Rightarrow> rat"
  processor_b1 :: "nat \<Rightarrow> rat"
  processor_w2 :: "nat \<Rightarrow> nat \<Rightarrow> rat"
  processor_b2 :: "nat \<Rightarrow> rat"
  classifier_w1 :: "nat \<Rightarrow> nat \<Rightarrow> rat"
  classifier_b1 :: "nat \<Rightarrow> rat"
  classifier_w2 :: "nat \<Rightarrow> nat \<Rightarrow> rat"
  classifier_b2 :: "nat \<Rightarrow> rat"

record ViralityClassifier =
  n_labels :: nat
  classifier :: "layer list option"
  bert_processor :: "layer list"

text \<open>
  \<^verbatim>\<open>
  def __init__(self, checkpoint, n_features=0, n_labels=4, freeze_bert=False, dropout=0.2):
      self.bert = AutoModel.from_pretrained(checkpoint)
      self.n_labels = n_labels
      bert_hdim = self.bert.config.hidden_size
      if n_features == 0:
          n_features = n_labels
          self.classifier = None
      else:
          self.classifier = torch.nn.Sequential(
              torch.nn.Linear(n_features*2, n_features),
              torch.nn.ReLU(),
              torch.nn.Linear(n_features, n_labels))
      self.bert_processor = torch.nn.Sequential(
          torch.nn.Dropout(dropout),
          torch.nn.Linear(bert_hdim, bert_hdim//3),
          torch.nn.ReLU(),
          torch.nn.Linear(bert_hdim//3, n_features))
  \<close>
  The encoder is the library's: of the loaded checkpoint the model keeps the hidden size
  \<open>bert_hdim\<close>. \<^verbatim>\<open>torch.nn.Dropout\<close> raises ValueError for a probability outside [0, 1].
\<close>

definition init_classifier ::
    "nat \<Rightarrow> parameters \<Rightarrow> nat \<Rightarrow> nat \<Rightarrow> rat \<Rightarrow> py_error + ViralityClassifier" where
  "init_classifier bert_hdim ps n_features nl dropout =
     (let n_features' = (if n_features = 0 then nl else n_features);
          cl = (if n_features = 0 then None
                else Some [Linear (n_features * 2) n_features (classifier_w1 ps) (classifier_b1 ps),
                           ReLU,
                           Linear n_features nl (classifier_w2 ps) (classifier_b2 ps)])
      in if dropout < 0 \<or> 1 < dropout then Inl ValueError
         else Inr \<lparr>n_labels = nl,
                   classifier = cl,
                   bert_processor =
                     [Dropout dropout,
                      Linear bert_hdim (bert_hdim div 3) (processor_w1 ps) (processor_b1 ps),
                      ReLU,
                      Linear (bert_hdim div 3) n_features' (processor_w2 ps) (processor_b2 ps)]\<rparr>)"

record SequenceClassifierOutput =
  out_loss :: loss
  out_logits :: tensor

text \<open>
  \<^verbatim>\<open>
  def forward(self, input_ids, token_type_ids, attention_mask, labels, features=None):
      bert_outputs = self.bert(...)
      logits = self.bert_processor(bert_outputs["last_hidden_state"][:, 0, :])
      if self.classifier is not None:
          logits = self.classifier(torch.cat([logits, features], dim=1))
      return transformers.modeling_outputs.SequenceClassifierOutput(
          loss=self.compute_loss(logits, labels), logits=logits, ...)
  \<close>
  The argument \<open>cls\<close> is what the encoder returns for the batch at the first position,
  \<^verbatim>\<open>last_hidden_state[:, 0, :]\<close>; the hidden states and attentions that are passed
  through are left out.
\<close>

definition forward ::
    "(nat \<Rightarrow> nat \<Rightarrow> rat) \<Rightarrow> ViralityClassifier \<Rightarrow> tensor \<Rightarrow> int list \<Rightarrow> tensor option
       \<Rightarrow> py_error + SequenceClassifierOutput" where
  "forward factors m cls labels features =
     (case sequential factors (bert_processor m) cls of
        Inl e \<Rightarrow> Inl e
      | Inr x \<Rightarrow>
          (case (case classifier m of
                   None \<Rightarrow> Inr x
                 | Some cl \<Rightarrow>
                     (case cat_dim1 x features of
                        Inl e \<Rightarrow> Inl e
                      | Inr xf \<Rightarrow> sequential factors cl xf)) of
             Inl e \<Rightarrow> Inl e
           | Inr logits \<Rightarrow>
               (case compute_loss (n_labels m) logits labels of
                  Inl e \<Rightarrow> Inl e
                | Inr l \<Rightarrow> Inr \<lparr>out_loss = l, out_logits = logits\<rparr>)))"

section \<open>Labels (the binning of the retweet count)\<close>

text \<open>
  \<^verbatim>\<open>
  df["label"] = pd.cut(df["retweets_count"], bins=[0,1,10,100,float("inf")],
                       include_lowest=True, right=False)
  df["label"] = df["label"].cat.rename_categories([0,1,2,3])
  \<close>
  A bin edge is a number or \<^verbatim>\<open>float("inf")\<close>. The counts are compared with the edges as
  numbers; they are integers in the data and rationals here, which covers them.
\<close>

datatype bin_edge = Fin rat | PosInf

fun edge_le :: "bin_edge \<Rightarrow> rat \<Rightarrow> bool" where
  "edge_le (Fin b) x = (b \<le> x)"
| "edge_le PosInf x = False"

fun edge_less :: "bin_edge \<Rightarrow> rat \<Rightarrow> bool" where
  "edge_less (Fin b) x = (b < x)"
| "edge_less PosInf x = False"

text \<open>\<^verbatim>\<open>bins.searchsorted(x, side=side)\<close> on increasing bins: the number of edges that are
  \<open>\<le> x\<close> for side "right", and that are \<open>< x\<close> for side "left".\<close>

datatype side = Left | Right

definition searchsorted :: "bin_edge list \<Rightarrow> side \<Rightarrow> rat \<Rightarrow> nat" where
  "searchsorted bins s x =
     length (filter (\<lambda>b. case s of Right \<Rightarrow> edge_le b x | Left \<Rightarrow> edge_less b x) bins)"

text \<open>
  \<^verbatim>\<open>pd.cut\<close> on one value, as pandas computes it: the position among the edges (side
  "left" for \<^verbatim>\<open>right=True\<close>, side "right" for \<^verbatim>\<open>right=False\<close>), set to 1 for the lowest
  edge when \<^verbatim>\<open>include_lowest\<close> holds; a value before the first edge or not before the last
  one is missing (\<open>None\<close>), any other gets the category of index position - 1.
\<close>

definition pd_cut :: "bin_edge list \<Rightarrow> bool \<Rightarrow> bool \<Rightarrow> rat \<Rightarrow> nat option" where
  "pd_cut bins include_lowest right x =
     (let ids = searchsorted bins (if right then Left else Right) x;
          ids' = (if include_lowest \<and> bins \<noteq> [] \<and> hd bins = Fin x then 1 else ids)
      in if ids' = length bins \<or> ids' = 0 then None else Some (ids' - 1))"

text \<open>\<^verbatim>\<open>rename_categories(names)\<close> gives the category of index \<open>j\<close> the name
  \<open>names ! j\<close>.\<close>

definition rename_categories :: "nat list \<Rightarrow> nat option \<Rightarrow> nat option" where
  "rename_categories names c = map_option (\<lambda>j. names ! j) c"

definition label_of :: "rat \<Rightarrow> nat option" where
  "label_of retweets_count =
     rename_categories [0, 1, 2, 3]
       (pd_cut [Fin 0, Fin 1, Fin 10, Fin 100, PosInf] True False retweets_count)"

section \<open>The metric (compute_metric) and the training arguments\<close>

text \<open>A 64-bit float that is a number (kept exact) or not a number.\<close>

datatype float64 = Finite rat | NaN

text \<open>\<^verbatim>\<open>a.argmax(-1)\<close> on one row: the position of the first occurrence of the maximum.\<close>

definition argmax_row :: "rat list \<Rightarrow> nat" where
  "argmax_row r = length (takeWhile (\<lambda>x. x \<noteq> Max (set r)) r)"

text \<open>\<^verbatim>\<open>a == b\<close> on one-dimensional arrays: element by element, an array of one element
  being broadcast; with other lengths the comparison cannot be made and the expression
  raises (which exception depends on the version of numpy; ValueError here).\<close>

definition np_equal :: "int list \<Rightarrow> int list \<Rightarrow> py_error + bool list" where
  "np_equal a b =
     (if length a = length b then Inr (map2 (=) a b)
      else if length a = 1 then Inr (map (\<lambda>y. hd a = y) b)
      else if length b = 1 then Inr (map (\<lambda>x. x = hd b) a)
      else Inl ValueError)"

text \<open>\<^verbatim>\<open>.mean()\<close> of an array of booleans: the share of \<^verbatim>\<open>True\<close>, not a number for the
  empty array.\<close>

definition np_mean :: "bool list \<Rightarrow> float64" where
  "np_mean bs = (if bs = [] then NaN
                 else Finite (of_nat (length (filter id bs)) / of_nat (length bs)))"

record EvalPrediction =
  predictions :: tensor
  label_ids :: "int list"

text \<open>
  \<^verbatim>\<open>
  def compute_metric(eval_pred):
      return {"accuracy": (eval_pred.label_ids == eval_pred.predictions.argmax(-1)).mean()}
  \<close>
  \<^verbatim>\<open>argmax\<close> raises ValueError on an axis of size 0.
\<close>

definition compute_metric :: "EvalPrediction \<Rightarrow> py_error + (string \<times> float64) list" where
  "compute_metric eval_pred =
     (if cols (predictions eval_pred) = 0 then Inl ValueError
      else case np_equal (label_ids eval_pred)
                  (map (\<lambda>r. int (argmax_row r)) (rows (predictions eval_pred))) of
             Inl e \<Rightarrow> Inl e
           | Inr eq \<Rightarrow> Inr [(''accuracy'', np_mean eq)])"

text \<open>
  The fields of \<^verbatim>\<open>TrainingArguments\<close> that the script sets and that the functions below
  read. The number of processors and of devices come from the machine.
\<close>

record TrainingArguments =
  per_device_train_batch_size :: nat
  n_gpu :: nat
  dataloader_drop_last :: bool
  dataloader_num_workers :: nat
  dataloader_pin_memory :: bool
  save_total_limit :: nat
  load_best_model_at_end :: bool
  metric_for_best_model :: string
  greater_is_better :: bool

definition training_args :: "nat \<Rightarrow> nat \<Rightarrow> TrainingArguments" where
  "training_args cpu_count gpus =
     \<lparr>per_device_train_batch_size = 128,
      n_gpu = gpus,
      dataloader_drop_last = False,
      dataloader_num_workers = cpu_count,
      dataloader_pin_memory = True,
      save_total_limit = 1,
      load_best_model_at_end = True,
      metric_for_best_model = ''accuracy'',
      greater_is_better = True\<rparr>"

definition train_batch_size :: "TrainingArguments \<Rightarrow> nat" where
  "train_batch_size a = per_device_train_batch_size a * max 1 (n_gpu a)"

text \<open>The test of the library's Trainer for a new best checkpoint: there is none yet,
  or the metric compares with the best one by \<^verbatim>\<open>np.greater\<close> when \<^verbatim>\<open>greater_is_better\<close>
  is set and by \<^verbatim>\<open>np.less\<close> when it is not.\<close>

definition is_new_best :: "TrainingArguments \<Rightarrow> rat \<Rightarrow> rat option \<Rightarrow> bool" where
  "is_new_best a metric_value best_metric =
     (case best_metric of
        None \<Rightarrow> True
      | Some b \<Rightarrow> if greater_is_better a then b < metric_value else metric_value < b)"

section \<open>The dataset and the trainer (TweetDataset, CustomTrainer)\<close>

record TweetDataset =
  ds_texts :: "string list"
  ds_features :: "int list list option"
  ds_labels :: "nat list"
  ds_sample_weights :: "rat list"

text \<open>
  \<^verbatim>\<open>
  def __init__(self, texts, labels, tokenizer, features=None):
      self.texts = texts
      self.features = features.values.astype("int32") if features is not None else None
      self.labels = labels
      self.tokenizer = tokenizer
      self.sample_weights = self.compute_sample_weights(labels)
  \<close>
\<close>

definition init_dataset ::
    "string list \<Rightarrow> nat list \<Rightarrow> int list list option \<Rightarrow> py_error + TweetDataset" where
  "init_dataset texts labels features =
     (case compute_sample_weights labels of
        Inl e \<Rightarrow> Inl e
      | Inr ws \<Rightarrow> Inr \<lparr>ds_texts = texts, ds_features = features, ds_labels = labels,
                        ds_sample_weights = ws\<rparr>)"

text \<open>\<^verbatim>\<open>torch.utils.data.WeightedRandomSampler(weights, num_samples, replacement=True)\<close>:
  the constructor raises ValueError unless \<open>num_samples\<close> is a positive integer.\<close>

record WeightedRandomSampler =
  sampler_weights :: "rat list"
  num_samples :: nat
  replacement :: bool

definition new_sampler :: "rat list \<Rightarrow> nat \<Rightarrow> py_error + WeightedRandomSampler" where
  "new_sampler ws n =
     (if n = 0 then Inl ValueError
      else Inr \<lparr>sampler_weights = ws, num_samples = n, replacement = True\<rparr>)"

record DataLoader =
  dl_dataset :: TweetDataset
  dl_batch_size :: nat
  dl_sampler :: WeightedRandomSampler
  dl_drop_last :: bool
  dl_num_workers :: nat
  dl_pin_memory :: bool

text \<open>\<^verbatim>\<open>torch.utils.data.DataLoader(dataset, batch_size=..., sampler=..., ...)\<close>: the
  constructor raises ValueError unless the batch size is a positive integer.\<close>

definition new_dataloader ::
    "TweetDataset \<Rightarrow> nat \<Rightarrow> WeightedRandomSampler \<Rightarrow> bool \<Rightarrow> nat \<Rightarrow> bool
       \<Rightarrow> py_error + DataLoader" where
  "new_dataloader ds bs sampler drop_last num_workers pin_memory =
     (if bs = 0 then Inl ValueError
      else Inr \<lparr>dl_dataset = ds, dl_batch_size = bs, dl_sampler = sampler,
                dl_drop_last = drop_last, dl_num_workers = num_workers,
                dl_pin_memory = pin_memory\<rparr>)"

record Trainer =
  tr_args :: TrainingArguments
  train_dataset :: "TweetDataset option"
  eval_dataset :: "TweetDataset option"

text \<open>
  \<^verbatim>\<open>
  class CustomTrainer(Trainer):
      def __init__(self, *args, **kwargs):
          super(CustomTrainer, self).__init__(*args, **kwargs)
  \<close>
  The constructor hands its arguments to the constructor of the library's Trainer, which
  keeps them; \<^verbatim>\<open>train_dataset=None\<close> is its default and is accepted.
\<close>

definition CustomTrainer ::
    "TrainingArguments \<Rightarrow> TweetDataset option \<Rightarrow> TweetDataset option \<Rightarrow> py_error + Trainer" where
  "CustomTrainer a train_ds eval_ds =
     Inr \<lparr>tr_args = a, train_dataset = train_ds, eval_dataset = eval_ds\<rparr>"

text \<open>
  \<^verbatim>\<open>
  def get_train_dataloader(self):
      if self.train_dataset is None:
          raise ValueError("Trainer: training requires a train_dataset.")
      sample_weights = self.train_dataset.sample_weights
      sampler = torch.utils.data.WeightedRandomSampler(sample_weights, len(sample_weights))
      return torch.utils.data.DataLoader(
          self.train_dataset,
          batch_size=self.args.train_batch_size,
          sampler=sampler,
          collate_fn=self.data_collator,
          drop_last=self.args.dataloader_drop_last,
          num_workers=self.args.dataloader_num_workers,
          pin_memory=self.args.dataloader_pin_memory)
  \<close>
\<close>

definition get_train_dataloader :: "Trainer \<Rightarrow> py_error + DataLoader" where
  "get_train_dataloader self =
     (case train_dataset self of
        None \<Rightarrow> Inl ValueError
      | Some ds \<Rightarrow>
          (case new_sampler (ds_sample_weights ds) (length (ds_sample_weights ds)) of
             Inl e \<Rightarrow> Inl e
           | Inr sampler \<Rightarrow>
               new_dataloader ds (train_batch_size (tr_args self)) sampler
                 (dataloader_drop_last (tr_args self))
                 (dataloader_num_workers (tr_args self))
                 (dataloader_pin_memory (tr_args self))))"

text \<open>
  \<^verbatim>\<open>trainer.train()\<close> is the library's: before its loop over epochs and batches it asks
  for the train dataloader, and an exception raised there ends the call. The model keeps
  this first step: \<open>Inr\<close> is the dataloader the loop runs on.
\<close>

definition train :: "Trainer \<Rightarrow> py_error + DataLoader" where
  "train self = get_train_dataloader self"

section \<open>The checkpoint logged as the best model\<close>

text \<open>
  \<^verbatim>\<open>
  best_ckpt = np.min([int(fol.split("-")[1]) for fol in os.listdir(f"./results/{wandb.run.name}")])
  best_model_artifact.add_dir(f"./results/{wandb.run.name}/checkpoint-{best_ckpt}")
  \<close>
  The names in the output directory are ASCII strings.
\<close>


















section \<open>Properties of the sample weights\<close>

lemma length_unique_counts: "length (snd (np_unique_counts xs)) = card (set xs)"
  by (simp add: np_unique_counts_def Let_def length_remdups_card_conv)

lemma unique_counts_dense:
  assumes "set xs = {0..<card (set xs)}"
  shows "snd (np_unique_counts xs) = map (count_list xs) [0..<card (set xs)]"
proof -
  have "sort (remdups xs) = sorted_list_of_set (set xs)"
    by (simp add: sorted_list_of_set_sort_remdups)
  also have "\<dots> = sorted_list_of_set {0..<card (set xs)}"
    using assms by simp
  also have "\<dots> = [0..<card (set xs)]"
    by simp
  finally show ?thesis
    by (simp add: np_unique_counts_def Let_def)
qed

lemma dense_if_in_range:
  assumes "list_all (\<lambda>l. l < card (set xs)) xs"
  shows "set xs = {0..<card (set xs)}"
proof (rule card_subset_eq)
  show "finite {0..<card (set xs)}" by simp
  show "set xs \<subseteq> {0..<card (set xs)}"
    using assms by (auto simp: list_all_iff)
  show "card (set xs) = card {0..<card (set xs)}" by simp
qed

lemma in_range_if_dense:
  assumes "set xs = {0..<card (set xs)}"
  shows "list_all (\<lambda>l. l < card (set xs)) xs"
  unfolding list_all_iff
proof
  fix l assume "l \<in> set xs"
  then have "l \<in> {0..<card (set xs)}" using assms by blast
  then show "l < card (set xs)" by simp
qed

lemma compute_sample_weights_total_iff:
  "(\<exists>ws. compute_sample_weights xs = Inr ws) \<longleftrightarrow> list_all (\<lambda>l. l < card (set xs)) xs"
  by (simp add: compute_sample_weights_def np_take_def Let_def length_unique_counts)

lemma compute_sample_weights_out_of_range:
  "\<not> list_all (\<lambda>l. l < card (set xs)) xs \<Longrightarrow> compute_sample_weights xs = Inl IndexError"
  by (simp add: compute_sample_weights_def np_take_def Let_def length_unique_counts)

lemma compute_sample_weights_dense:
  assumes "set xs = {0..<card (set xs)}"
  shows "compute_sample_weights xs = Inr (inverse_class_frequency xs)"
proof -
  have r: "list_all (\<lambda>l. l < card (set xs)) xs"
    using assms by (rule in_range_if_dense)
  have "map (\<lambda>i. map (\<lambda>c. 1 / of_nat c) (snd (np_unique_counts xs)) ! i) xs
        = map (\<lambda>l. 1 / rat_of_nat (count_list xs l)) xs"
  proof (rule map_cong[OF refl])
    fix l assume "l \<in> set xs"
    then have "l < card (set xs)" using r by (simp add: list_all_iff)
    then show "map (\<lambda>c. 1 / of_nat c) (snd (np_unique_counts xs)) ! l
               = 1 / rat_of_nat (count_list xs l)"
      by (simp add: unique_counts_dense[OF assms])
  qed
  then show ?thesis
    using r by (simp add: compute_sample_weights_def np_take_def Let_def
        length_unique_counts inverse_class_frequency_def)
qed

lemma classes_counted_iff_dense:
  "classes_counted xs \<longleftrightarrow> set xs = {0..<card (set xs)}"
proof
  assume "classes_counted xs"
  then have "list_all (\<lambda>l. l < card (set xs)) xs"
    by (simp add: classes_counted_def Let_def length_unique_counts list_all_iff)
  then show "set xs = {0..<card (set xs)}" by (rule dense_if_in_range)
next
  assume d: "set xs = {0..<card (set xs)}"
  have r: "list_all (\<lambda>l. l < card (set xs)) xs"
    using d by (rule in_range_if_dense)
  show "classes_counted xs"
    unfolding classes_counted_def Let_def list_all_iff
  proof
    fix l assume "l \<in> set xs"
    then have "l < card (set xs)" using r by (simp add: list_all_iff)
    then show "l < length (snd (np_unique_counts xs)) \<and>
               snd (np_unique_counts xs) ! l = count_list xs l"
      by (simp add: unique_counts_dense[OF d])
  qed
qed

lemma zip_map_self: "zip xs (map f xs) = map (\<lambda>l. (l, f l)) xs"
  by (induction xs) auto

lemma sum_indicator_count:
  "(\<Sum>l \<leftarrow> xs. if l = c then f l else 0) = rat_of_nat (count_list xs c) * f c"
  by (induction xs) (auto simp: algebra_simps)

lemma class_mass_inverse_frequency:
  assumes "c \<in> set xs"
  shows "class_mass c xs (inverse_class_frequency xs) = 1"
proof -
  have pos: "count_list xs c \<noteq> 0"
    using assms by (simp add: count_list_0_iff)
  have "zip xs (map (\<lambda>l. 1 / rat_of_nat (count_list xs l)) xs)
        = map (\<lambda>l. (l, 1 / rat_of_nat (count_list xs l))) xs"
    by (rule zip_map_self)
  then have "class_mass c xs (inverse_class_frequency xs)
        = (\<Sum>l \<leftarrow> xs. if l = c then 1 / rat_of_nat (count_list xs l) else 0)"
    by (simp add: class_mass_def inverse_class_frequency_def comp_def)
  also have "\<dots> = rat_of_nat (count_list xs c) * (1 / rat_of_nat (count_list xs c))"
    by (rule sum_indicator_count)
  also have "\<dots> = 1" using pos by simp
  finally show ?thesis .
qed


text \<open>
  C1. For every label list in which every class occurring in the list is counted (the
  count array holds the number of occurrences of class \<open>c\<close> at position \<open>c\<close>),
  \<open>compute_sample_weights\<close> gives example \<open>i\<close> the weight \<open>1 / count (class i)\<close>, and
  the weights of the examples of each occurring class sum to 1. In particular a list with
  the counts 0:4, 1:2, 2:1, 3:1 gets the weights 1/4, 1/2, 1, 1 for the classes 0, 1, 2, 3.
\<close>

theorem sample_weights_inverse_class_frequency:
  "(classes_counted labels \<longrightarrow>
      (\<exists>ws. compute_sample_weights labels = Inr ws \<and>
            length ws = length labels \<and>
            (\<forall>i < length labels. ws ! i = 1 / of_nat (count_list labels (labels ! i))) \<and>
            (\<forall>c \<in> set labels. class_mass c labels ws = 1))) \<and>
   (set labels = {0, 1, 2, 3} \<and> count_list labels 0 = 4 \<and> count_list labels 1 = 2 \<and>
      count_list labels 2 = 1 \<and> count_list labels 3 = 1 \<longrightarrow>
      compute_sample_weights labels = Inr (map (\<lambda>l. [1 / 4, 1 / 2, 1, 1] ! l) labels))"
proof (intro conjI impI)
  assume "classes_counted labels"
  then have "set labels = {0..<card (set labels)}"
    by (simp add: classes_counted_iff_dense)
  then have "compute_sample_weights labels = Inr (inverse_class_frequency labels)"
    by (rule compute_sample_weights_dense)
  moreover have "length (inverse_class_frequency labels) = length labels"
    by (simp add: inverse_class_frequency_def)
  moreover have "\<forall>i < length labels.
      inverse_class_frequency labels ! i = 1 / of_nat (count_list labels (labels ! i))"
    by (simp add: inverse_class_frequency_def)
  moreover have "\<forall>c \<in> set labels. class_mass c labels (inverse_class_frequency labels) = 1"
    by (simp add: class_mass_inverse_frequency)
  ultimately show "\<exists>ws. compute_sample_weights labels = Inr ws \<and>
            length ws = length labels \<and>
            (\<forall>i < length labels. ws ! i = 1 / of_nat (count_list labels (labels ! i))) \<and>
            (\<forall>c \<in> set labels. class_mass c labels ws = 1)"
    by blast
next
  assume toy: "set labels = {0, 1, 2, 3} \<and> count_list labels 0 = 4 \<and> count_list labels 1 = 2 \<and>
      count_list labels 2 = 1 \<and> count_list labels 3 = 1"
  then have k: "card (set labels) = 4" by simp
  have "{0..<4::nat} = {0, 1, 2, 3}" by auto
  then have d: "set labels = {0..<4}" using toy by simp
  have "set labels = {0..<card (set labels)}"
    unfolding k by (fact d)
  then have "compute_sample_weights labels = Inr (inverse_class_frequency labels)"
    by (rule compute_sample_weights_dense)
  moreover have "inverse_class_frequency labels = map (\<lambda>l. [1 / 4, 1 / 2, 1, 1] ! l) labels"
    unfolding inverse_class_frequency_def
  proof (rule map_cong[OF refl])
    fix l assume "l \<in> set labels"
    then have "l = 0 \<or> l = 1 \<or> l = 2 \<or> l = 3" using toy by auto
    then show "1 / rat_of_nat (count_list labels l) = [1 / 4, 1 / 2, 1, 1] ! l"
      using toy by auto
  qed
  ultimately show "compute_sample_weights labels = Inr (map (\<lambda>l. [1 / 4, 1 / 2, 1, 1] ! l) labels)"
    by simp
qed

theorem sample_weights_inverse_class_frequency_witness:
  "classes_counted [0, 0, 1, 2, 0, 3, 1, 0] \<and>
   set [0, 0, 1, 2, 0, 3, 1, 0::nat] = {0, 1, 2, 3} \<and>
   count_list [0, 0, 1, 2, 0, 3, 1, 0::nat] 0 = 4 \<and>
   count_list [0, 0, 1, 2, 0, 3, 1, 0::nat] 1 = 2 \<and>
   count_list [0, 0, 1, 2, 0, 3, 1, 0::nat] 2 = 1 \<and>
   count_list [0, 0, 1, 2, 0, 3, 1, 0::nat] 3 = 1 \<and>
   compute_sample_weights [0, 0, 1, 2, 0, 3, 1, 0]
     = Inr [1 / 4, 1 / 4, 1 / 2, 1, 1 / 4, 1, 1 / 2, 1 / 4] \<and>
   class_mass 0 [0, 0, 1, 2, 0, 3, 1, 0] [1 / 4, 1 / 4, 1 / 2, 1, 1 / 4, 1, 1 / 2, 1 / 4] = 1 \<and>
   class_mass 1 [0, 0, 1, 2, 0, 3, 1, 0] [1 / 4, 1 / 4, 1 / 2, 1, 1 / 4, 1, 1 / 2, 1 / 4] = 1 \<and>
   class_mass 2 [0, 0, 1, 2, 0, 3, 1, 0] [1 / 4, 1 / 4, 1 / 2, 1, 1 / 4, 1, 1 / 2, 1 / 4] = 1 \<and>
   class_mass 3 [0, 0, 1, 2, 0, 3, 1, 0] [1 / 4, 1 / 4, 1 / 2, 1, 1 / 4, 1, 1 / 2, 1 / 4] = 1"
proof -
  let ?L = "[0, 0, 1, 2, 0, 3, 1, 0::nat]"
  have c: "classes_counted ?L"
    by (simp add: classes_counted_def np_unique_counts_def)
  have s: "set ?L = {0, 1, 2, 3}"
    by auto
  have n: "count_list ?L 0 = 4 \<and> count_list ?L 1 = 2 \<and> count_list ?L 2 = 1 \<and> count_list ?L 3 = 1"
    by simp
  have f: "inverse_class_frequency ?L = [1 / 4, 1 / 4, 1 / 2, 1, 1 / 4, 1, 1 / 2, 1 / 4]"
    by (simp add: inverse_class_frequency_def)
  have t: "set ?L = {0, 1, 2, 3} \<and> count_list ?L 0 = 4 \<and> count_list ?L 1 = 2 \<and>
      count_list ?L 2 = 1 \<and> count_list ?L 3 = 1"
    using s n by blast
  have w: "compute_sample_weights ?L = Inr [1 / 4, 1 / 4, 1 / 2, 1, 1 / 4, 1, 1 / 2, 1 / 4]"
    using sample_weights_inverse_class_frequency [of ?L] t by simp
  obtain ws where ws: "compute_sample_weights ?L = Inr ws"
    and m: "\<forall>c \<in> set ?L. class_mass c ?L ws = 1"
    using sample_weights_inverse_class_frequency [of ?L] c by blast
  have e: "ws = [1 / 4, 1 / 4, 1 / 2, 1, 1 / 4, 1, 1 / 2, 1 / 4]"
    using ws w by simp
  have m0: "class_mass 0 ?L ws = 1" using m by simp
  have m1: "class_mass 1 ?L ws = 1" using m by simp
  have m2: "class_mass 2 ?L ws = 1" using m by simp
  have m3: "class_mass 3 ?L ws = 1" using m by simp
  show ?thesis
    using c s n w m0 [unfolded e] m1 [unfolded e] m2 [unfolded e] m3 [unfolded e]
    by blast
qed

text \<open>
  C10. \<open>compute_sample_weights\<close> indexes the per-class inverse counts, which are ordered
  by sorted distinct label, by the raw label value. It returns, and returns the
  inverse-class-frequency weights, exactly when the distinct labels are \<open>0, \<dots>, k - 1\<close>
  for \<open>k\<close> distinct classes; on every other list the indexing is out of range, as it is
  for the distinct labels 0 and 2.
\<close>

theorem compute_sample_weights_needs_dense_labels:
  "((\<exists>ws. compute_sample_weights labels = Inr ws)
      \<longleftrightarrow> set labels = {0..<card (set labels)}) \<and>
   (compute_sample_weights labels = Inr (inverse_class_frequency labels)
      \<longleftrightarrow> set labels = {0..<card (set labels)}) \<and>
   (set labels \<noteq> {0..<card (set labels)}
      \<longrightarrow> compute_sample_weights labels = Inl IndexError) \<and>
   compute_sample_weights [0, 2] = Inl IndexError"
proof -
  have total: "(\<exists>ws. compute_sample_weights labels = Inr ws)
      \<longleftrightarrow> set labels = {0..<card (set labels)}"
    using compute_sample_weights_total_iff [of labels] dense_if_in_range [of labels]
      in_range_if_dense [of labels] by blast
  have exact: "compute_sample_weights labels = Inr (inverse_class_frequency labels)
      \<longleftrightarrow> set labels = {0..<card (set labels)}"
    using total compute_sample_weights_dense [of labels] by blast
  have raises: "set labels \<noteq> {0..<card (set labels)}
      \<longrightarrow> compute_sample_weights labels = Inl IndexError"
    using compute_sample_weights_out_of_range [of labels] dense_if_in_range [of labels]
    by blast
  have gap: "compute_sample_weights [0, 2] = Inl IndexError"
    by (simp add: compute_sample_weights_def np_unique_counts_def np_take_def)
  show ?thesis using total exact raises gap by blast
qed

theorem compute_sample_weights_needs_dense_labels_witness:
  "set [0, 2::nat] \<noteq> {0..<card (set [0, 2::nat])} \<and>
   compute_sample_weights [0, 2] = Inl IndexError \<and>
   set [0, 1, 1::nat] = {0..<card (set [0, 1, 1::nat])} \<and>
   compute_sample_weights [0, 1, 1] = Inr [1, 1 / 2, 1 / 2]"
proof -
  have k2: "card (set [0, 2::nat]) = 2" and k3: "card (set [0, 1, 1::nat]) = 2"
    by simp_all
  have a: "set [0, 2::nat] \<noteq> {0..<card (set [0, 2::nat])}"
    unfolding k2 by auto
  have b: "set [0, 1, 1::nat] = {0..<card (set [0, 1, 1::nat])}"
    unfolding k3 by auto
  have f: "inverse_class_frequency [0, 1, 1] = [1, 1 / 2, 1 / 2]"
    by (simp add: inverse_class_frequency_def)
  have r: "compute_sample_weights [0, 2] = Inl IndexError"
    using compute_sample_weights_needs_dense_labels [of "[0, 2]"] a by blast
  have w: "compute_sample_weights [0, 1, 1] = Inr (inverse_class_frequency [0, 1, 1])"
    using compute_sample_weights_needs_dense_labels [of "[0, 1, 1]"] b by blast
  show ?thesis
    using a b r w [unfolded f] by blast
qed

section \<open>Properties of the classifier\<close>

lemma apply_layer_rows:
  "apply_layer factors l t = Inr t' \<Longrightarrow> length (rows t') = length (rows t)"
  by (cases l) (auto split: if_splits)

lemma apply_layer_Linear:
  "apply_layer factors (Linear i k w b) t = Inr t' \<Longrightarrow>
     cols t = i \<and> cols t' = k \<and> tensor_ok t' \<and> length (rows t') = length (rows t)"
  by (auto simp: tensor_ok_def list_all_iff split: if_splits)

lemma sequential_rows:
  "sequential factors ls t = Inr t' \<Longrightarrow> length (rows t') = length (rows t)"
proof (induction ls arbitrary: t)
  case Nil
  then show ?case by simp
next
  case (Cons l ls)
  then show ?case
    by (auto split: sum.splits dest: apply_layer_rows)
qed

lemma sequential_append:
  "sequential factors (ls @ [l]) t =
     (case sequential factors ls t of Inl e \<Rightarrow> Inl e | Inr t' \<Rightarrow> apply_layer factors l t')"
  by (induction ls arbitrary: t) (auto split: sum.splits)

lemma sequential_ends_Linear:
  assumes "sequential factors (ls @ [Linear i k w b]) t = Inr t'"
  shows "cols t' = k \<and> tensor_ok t' \<and> length (rows t') = length (rows t)"
proof -
  from assms obtain u where u: "sequential factors ls t = Inr u"
    and l: "apply_layer factors (Linear i k w b) u = Inr t'"
    by (auto simp: sequential_append split: sum.splits)
  from l have "cols t' = k \<and> tensor_ok t' \<and> length (rows t') = length (rows u)"
    using apply_layer_Linear by blast
  moreover have "length (rows u) = length (rows t)"
    using u by (rule sequential_rows)
  ultimately show ?thesis by simp
qed

lemma processor_width:
  assumes "init_classifier bert_hdim ps n_features nl dropout = Inr m"
    and "sequential factors (bert_processor m) cls = Inr x"
  shows "cols x = (if n_features = 0 then nl else n_features) \<and> tensor_ok x \<and>
         length (rows x) = length (rows cls) \<and> cols cls = bert_hdim"
proof -
  let ?nf = "if n_features = 0 then nl else n_features"
  from assms(1) have bp: "bert_processor m =
      [Dropout dropout, Linear bert_hdim (bert_hdim div 3) (processor_w1 ps) (processor_b1 ps), ReLU]
      @ [Linear (bert_hdim div 3) ?nf (processor_w2 ps) (processor_b2 ps)]"
    by (auto simp: init_classifier_def Let_def split: if_splits)
  have "cols x = ?nf \<and> tensor_ok x \<and> length (rows x) = length (rows cls)"
    using assms(2) unfolding bp by (rule sequential_ends_Linear)
  moreover have "cols cls = bert_hdim"
    using assms(2) unfolding bp by (auto split: if_splits sum.splits)
  ultimately show ?thesis by simp
qed








lemma sequential_processor_returns:
  "cols t = h \<Longrightarrow>
   \<exists>x. sequential factors [Dropout p, Linear h h' w1 b1, ReLU, Linear h' k w2 b2] t = Inr x"
  by simp


lemma sequential_classifier_width:
  assumes "sequential factors [Linear i j w1 b1, ReLU, Linear j k w2 b2] t = Inr x"
  shows "cols t = i \<and> cols x = k \<and> tensor_ok x \<and> length (rows x) = length (rows t)"
proof -
  have "cols x = k \<and> tensor_ok x \<and> length (rows x) = length (rows t)"
    using assms sequential_ends_Linear [of factors "[Linear i j w1 b1, ReLU]" j k w2 b2 t x]
    by simp
  moreover have "cols t = i"
    using assms by (auto split: if_splits sum.splits)
  ultimately show ?thesis by simp
qed


lemma init_classifier_fields:
  assumes "init_classifier bert_hdim ps n_features nl dropout = Inr m"
  shows "n_labels m = nl"
    and "classifier m =
           (if n_features = 0 then None
            else Some [Linear (n_features * 2) n_features (classifier_w1 ps) (classifier_b1 ps),
                       ReLU,
                       Linear n_features nl (classifier_w2 ps) (classifier_b2 ps)])"
    and "bert_processor m =
           [Dropout dropout,
            Linear bert_hdim (bert_hdim div 3) (processor_w1 ps) (processor_b1 ps),
            ReLU,
            Linear (bert_hdim div 3) (if n_features = 0 then nl else n_features)
              (processor_w2 ps) (processor_b2 ps)]"
    and "0 \<le> dropout \<and> dropout \<le> 1"
  using assms by (auto simp: init_classifier_def Let_def split: if_splits)


lemma forward_features:
  assumes i: "init_classifier bert_hdim ps n_features nl dropout = Inr m"
    and n: "0 < n_features"
    and f: "forward factors m cls labels features = Inr out"
  shows "\<exists>t. features = Some t \<and> cols t = n_features \<and> length (rows t) = length (rows cls)"
proof -
  let ?cl = "[Linear (n_features * 2) n_features (classifier_w1 ps) (classifier_b1 ps), ReLU,
              Linear n_features nl (classifier_w2 ps) (classifier_b2 ps)]"
  from f obtain x where x: "sequential factors (bert_processor m) cls = Inr x"
    by (auto simp: forward_def split: sum.splits)
  have px: "cols x = n_features \<and> length (rows x) = length (rows cls)"
    using processor_width [OF i x] n by simp
  have c: "classifier m = Some ?cl"
    using init_classifier_fields(2) [OF i] n by simp
  from f x c obtain xf where xf: "cat_dim1 x features = Inr xf"
    and l: "sequential factors ?cl xf = Inr (out_logits out)"
    by (auto simp: forward_def split: sum.splits)
  from xf obtain t where t: "features = Some t" and r: "length (rows x) = length (rows t)"
    and w: "cols xf = cols x + cols t"
    by (auto simp: cat_dim1_def split: option.splits if_splits)
  have "cols xf = n_features * 2"
    using sequential_classifier_width [OF l] by simp
  then have "cols t = n_features" using w px by simp
  then show ?thesis using t r px by simp
qed

lemma forward_without_features:
  assumes i: "init_classifier bert_hdim ps n_features nl dropout = Inr m"
    and n: "0 < n_features"
  shows "\<exists>e. forward factors m cls labels None = Inl e"
    and "cols cls = bert_hdim \<Longrightarrow> forward factors m cls labels None = Inl TypeError"
proof -
  let ?cl = "[Linear (n_features * 2) n_features (classifier_w1 ps) (classifier_b1 ps), ReLU,
              Linear n_features nl (classifier_w2 ps) (classifier_b2 ps)]"
  have c: "classifier m = Some ?cl"
    using init_classifier_fields(2) [OF i] n by simp
  show "\<exists>e. forward factors m cls labels None = Inl e"
    using c by (auto simp: forward_def cat_dim1_def split: sum.splits)
  assume "cols cls = bert_hdim"
  then obtain x where "sequential factors (bert_processor m) cls = Inr x"
    using sequential_processor_returns [of cls bert_hdim factors]
    unfolding init_classifier_fields(3) [OF i] by blast
  then show "forward factors m cls labels None = Inl TypeError"
    using c by (simp add: forward_def cat_dim1_def)
qed






text \<open>
  C9. For a model built with \<open>n_features > 0\<close>, \<open>forward\<close> returns only when a features
  tensor of shape (batch, \<open>n_features\<close>) is supplied. With the default \<^verbatim>\<open>features=None\<close>
  the call raises: the concatenation fails with TypeError as soon as the encoder output
  has the width the down-projection expects.
\<close>

theorem forward_requires_features:
  assumes "init_classifier bert_hdim ps n_features nl dropout = Inr m"
    and "0 < n_features"
  shows "(\<exists>e. forward factors m cls labels None = Inl e) \<and>
         (cols cls = bert_hdim \<longrightarrow> forward factors m cls labels None = Inl TypeError) \<and>
         (forward factors m cls labels features = Inr out \<longrightarrow>
            (\<exists>t. features = Some t \<and> cols t = n_features \<and>
                 length (rows t) = length (rows cls)))"
  using forward_without_features [OF assms] forward_features [OF assms] by blast

theorem forward_requires_features_witness:
  "\<exists>m. init_classifier 3 \<lparr>processor_w1 = (\<lambda>k j. 1), processor_b1 = (\<lambda>k. 0),
                processor_w2 = (\<lambda>k j. 1), processor_b2 = (\<lambda>k. 0),
                classifier_w1 = (\<lambda>k j. 1), classifier_b1 = (\<lambda>k. 0),
                classifier_w2 = (\<lambda>k j. 1), classifier_b2 = (\<lambda>k. 0)\<rparr> 1 4 (1 / 5) = Inr m \<and>
       0 < (1::nat) \<and>
       forward (\<lambda>i j. 1) m \<lparr>cols = 3, rows = [[1, 2, 3]]\<rparr> [2] None = Inl TypeError"
proof -
  let ?ps = "\<lparr>processor_w1 = (\<lambda>k j. 1), processor_b1 = (\<lambda>k. 0),
                processor_w2 = (\<lambda>k j. 1), processor_b2 = (\<lambda>k. 0),
                classifier_w1 = (\<lambda>k j. 1), classifier_b1 = (\<lambda>k. 0),
                classifier_w2 = (\<lambda>k j. 1), classifier_b2 = (\<lambda>k. 0::rat)\<rparr>"
  let ?cls = "\<lparr>cols = 3, rows = [[1, 2, 3::rat]]\<rparr>"
  obtain m where m: "init_classifier 3 ?ps 1 4 (1 / 5) = Inr m"
    by (simp add: init_classifier_def)
  have p: "0 < (1::nat)" by simp
  have c: "cols ?cls = 3" by simp
  have "forward (\<lambda>i j. 1) m ?cls [2] None = Inl TypeError"
    using forward_requires_features [OF m p, of "\<lambda>i j. 1" ?cls "[2]"] c by blast
  then show ?thesis using m p by blast
qed

section \<open>Properties of the labels, the metric and the trainer\<close>

lemma label_of_value:
  assumes "0 \<le> r"
  shows "label_of r = Some (if r < 1 then 0 else if r < 10 then 1 else if r < 100 then 2 else 3)"
  using assms
  by (simp add: label_of_def pd_cut_def searchsorted_def rename_categories_def Let_def)

lemma label_of_negative: "r < 0 \<Longrightarrow> label_of r = None"
  by (simp add: label_of_def pd_cut_def searchsorted_def rename_categories_def Let_def)

text \<open>
  C5. For every non-negative retweet count \<open>r\<close> the label is the ordinal class of the
  half-open interval that contains \<open>r\<close> among [0,1), [1,10), [10,100), [100,\<open>\<infinity>\<close>):
  label 0 iff \<open>0 \<le> r < 1\<close>, label 1 iff \<open>1 \<le> r < 10\<close>, label 2 iff \<open>10 \<le> r < 100\<close>,
  label 3 iff \<open>r \<ge> 100\<close>.
\<close>

theorem label_of_half_open_bins:
  assumes "0 \<le> r"
  shows "(label_of r = Some 0 \<longleftrightarrow> 0 \<le> r \<and> r < 1) \<and>
         (label_of r = Some 1 \<longleftrightarrow> 1 \<le> r \<and> r < 10) \<and>
         (label_of r = Some 2 \<longleftrightarrow> 10 \<le> r \<and> r < 100) \<and>
         (label_of r = Some 3 \<longleftrightarrow> 100 \<le> r) \<and>
         (\<exists>l. label_of r = Some l \<and> l \<le> 3)"
  using assms by (simp add: label_of_value)

theorem label_of_half_open_bins_witness:
  "(0::rat) \<le> 0 \<and> label_of 0 = Some 0 \<and>
   (0::rat) \<le> 1 \<and> label_of 1 = Some 1 \<and>
   (0::rat) \<le> 9 \<and> label_of 9 = Some 1 \<and>
   (0::rat) \<le> 10 \<and> label_of 10 = Some 2 \<and>
   (0::rat) \<le> 99 \<and> label_of 99 = Some 2 \<and>
   (0::rat) \<le> 100 \<and> label_of 100 = Some 3"
proof -
  have h0: "(0::rat) \<le> 0" and h1: "(0::rat) \<le> 1" and h9: "(0::rat) \<le> 9"
    and h10: "(0::rat) \<le> 10" and h99: "(0::rat) \<le> 99" and h100: "(0::rat) \<le> 100"
    by simp_all
  have "label_of 0 = Some 0"
    using label_of_half_open_bins [OF h0] by simp
  moreover have "label_of 1 = Some 1"
    using label_of_half_open_bins [OF h1] by simp
  moreover have "label_of 9 = Some 1"
    using label_of_half_open_bins [OF h9] by simp
  moreover have "label_of 10 = Some 2"
    using label_of_half_open_bins [OF h10] by simp
  moreover have "label_of 99 = Some 2"
    using label_of_half_open_bins [OF h99] by simp
  moreover have "label_of 100 = Some 3"
    using label_of_half_open_bins [OF h100] by simp
  ultimately show ?thesis by simp
qed

lemma argmax_row_first_maximum:
  assumes "r \<noteq> []"
  shows "argmax_row r < length r"
    and "r ! argmax_row r = Max (set r)"
    and "\<forall>j < argmax_row r. r ! j < Max (set r)"
proof -
  let ?P = "\<lambda>x. x \<noteq> Max (set r)"
  have "Max (set r) \<in> set r"
    using assms by (simp add: Max_in)
  then have "takeWhile ?P r \<noteq> r"
    by (metis (mono_tags, lifting) takeWhile_eq_all_conv)
  then show lt: "argmax_row r < length r"
    unfolding argmax_row_def
    by (metis length_takeWhile_le le_neq_implies_less takeWhile_eq_take take_all_iff)
  show "r ! argmax_row r = Max (set r)"
    using nth_length_takeWhile [of ?P r] lt unfolding argmax_row_def by blast
  show "\<forall>j < argmax_row r. r ! j < Max (set r)"
  proof (intro allI impI)
    fix j assume j: "j < argmax_row r"
    then have "takeWhile ?P r ! j \<in> set (takeWhile ?P r)"
      unfolding argmax_row_def by simp
    then have "?P (takeWhile ?P r ! j)"
      by (rule set_takeWhileD [THEN conjunct2])
    moreover have "takeWhile ?P r ! j = r ! j"
      using j unfolding argmax_row_def by (rule takeWhile_nth)
    moreover have "r ! j \<le> Max (set r)"
      using j lt by simp
    ultimately show "r ! j < Max (set r)" by simp
  qed
qed

lemma count_agreements:
  assumes "length a = length b"
  shows "length (filter id (map2 (=) a b)) = card {i. i < length a \<and> a ! i = b ! i}"
proof -
  have "length (filter id (map2 (=) a b))
        = card {i. i < length (map2 (=) a b) \<and> id (map2 (=) a b ! i)}"
    by (rule length_filter_conv_card)
  also have "{i. i < length (map2 (=) a b) \<and> id (map2 (=) a b ! i)}
        = {i. i < length a \<and> a ! i = b ! i}"
    using assms by auto
  finally show ?thesis .
qed

lemma compute_metric_accuracy:
  assumes w: "0 < cols (predictions p)"
    and n: "length (label_ids p) = length (rows (predictions p))"
    and e: "rows (predictions p) \<noteq> []"
  shows "compute_metric p =
           Inr [(''accuracy'',
                 Finite (of_nat (card {i. i < length (label_ids p) \<and>
                            label_ids p ! i = int (argmax_row (rows (predictions p) ! i))})
                         / of_nat (length (label_ids p))))]"
proof -
  let ?pred = "map (\<lambda>r. int (argmax_row r)) (rows (predictions p))"
  have l: "length (label_ids p) = length ?pred"
    using n by simp
  have eq: "np_equal (label_ids p) ?pred = Inr (map2 (=) (label_ids p) ?pred)"
    using l by (simp add: np_equal_def)
  have ne: "map2 (=) (label_ids p) ?pred \<noteq> []"
    using n e by (cases "label_ids p"; cases "rows (predictions p)") auto
  have "{i. i < length (label_ids p) \<and> label_ids p ! i = ?pred ! i}
        = {i. i < length (label_ids p) \<and>
              label_ids p ! i = int (argmax_row (rows (predictions p) ! i))}"
    using n by auto
  then have c: "length (filter id (map2 (=) (label_ids p) ?pred))
        = card {i. i < length (label_ids p) \<and>
              label_ids p ! i = int (argmax_row (rows (predictions p) ! i))}"
    using count_agreements [OF l] by simp
  have len: "length (map2 (=) (label_ids p) ?pred) = length (label_ids p)"
    using n by simp
  have "np_mean (map2 (=) (label_ids p) ?pred)
        = Finite (of_nat (length (filter id (map2 (=) (label_ids p) ?pred)))
                  / of_nat (length (map2 (=) (label_ids p) ?pred)))"
    using ne by (simp only: np_mean_def if_False)
  then have "np_mean (map2 (=) (label_ids p) ?pred)
        = Finite (of_nat (card {i. i < length (label_ids p) \<and>
                            label_ids p ! i = int (argmax_row (rows (predictions p) ! i))})
                  / of_nat (length (label_ids p)))"
    by (simp only: c len)
  then show ?thesis
    using w eq by (simp add: compute_metric_def)
qed

text \<open>
  C7. For true labels and logits of the same batch, the metric is the share of the
  examples whose label equals the argmax over the last axis of their logits (the
  position of the first maximum of the row): the top-1 accuracy, averaged over the batch.
  The training arguments select the best checkpoint by this metric with
  greater-is-better semantics.
\<close>

theorem compute_metric_top1_accuracy:
  assumes "tensor_ok (predictions p)"
    and "0 < cols (predictions p)"
    and "length (label_ids p) = length (rows (predictions p))"
    and "rows (predictions p) \<noteq> []"
  shows "compute_metric p =
           Inr [(''accuracy'',
                 Finite (of_nat (card {i. i < length (label_ids p) \<and>
                            label_ids p ! i = int (argmax_row (rows (predictions p) ! i))})
                         / of_nat (length (label_ids p))))] \<and>
         (\<forall>r \<in> set (rows (predictions p)).
            argmax_row r < length r \<and> r ! argmax_row r = Max (set r) \<and>
            (\<forall>j < argmax_row r. r ! j < Max (set r))) \<and>
         metric_for_best_model (training_args cpu_count gpus) = ''accuracy'' \<and>
         greater_is_better (training_args cpu_count gpus) \<and>
         load_best_model_at_end (training_args cpu_count gpus) \<and>
         (is_new_best (training_args cpu_count gpus) v (Some b) \<longleftrightarrow> b < v)"
proof (intro conjI ballI)
  show "compute_metric p =
           Inr [(''accuracy'',
                 Finite (of_nat (card {i. i < length (label_ids p) \<and>
                            label_ids p ! i = int (argmax_row (rows (predictions p) ! i))})
                         / of_nat (length (label_ids p))))]"
    using assms(2-4) by (rule compute_metric_accuracy)
next
  fix r assume "r \<in> set (rows (predictions p))"
  then have "length r = cols (predictions p)"
    using assms(1) by (simp add: tensor_ok_def list_all_iff)
  then have ne: "r \<noteq> []"
    using assms(2) by auto
  show "argmax_row r < length r" using ne by (rule argmax_row_first_maximum(1))
  show "r ! argmax_row r = Max (set r)" using ne by (rule argmax_row_first_maximum(2))
  show "\<forall>j < argmax_row r. r ! j < Max (set r)" using ne by (rule argmax_row_first_maximum(3))
next
  show "metric_for_best_model (training_args cpu_count gpus) = ''accuracy''"
    by (simp add: training_args_def)
  show "greater_is_better (training_args cpu_count gpus)"
    by (simp add: training_args_def)
  show "load_best_model_at_end (training_args cpu_count gpus)"
    by (simp add: training_args_def)
  show "is_new_best (training_args cpu_count gpus) v (Some b) \<longleftrightarrow> b < v"
    by (simp add: is_new_best_def training_args_def)
qed

theorem compute_metric_top1_accuracy_witness:
  "tensor_ok \<lparr>cols = 3, rows = [[1, 2, 3], [3, 3, 1], [0, 5, 5]]\<rparr> \<and>
   compute_metric \<lparr>predictions = \<lparr>cols = 3, rows = [[1, 2, 3], [3, 3, 1], [0, 5, 5]]\<rparr>,
                   label_ids = [2, 0, 2]\<rparr> = Inr [(''accuracy'', Finite (2 / 3))] \<and>
   argmax_row [3, 3, 1] = 0 \<and>
   card {i. i < 3 \<and> [2, 0, 2] ! i
           = int (argmax_row ([[1, 2, 3], [3, 3, 1], [0, 5, 5]] ! i))} = 2"
proof -
  let ?t = "\<lparr>cols = 3, rows = [[1, 2, 3], [3, 3, 1], [0, 5, 5::rat]]\<rparr>"
  let ?p = "\<lparr>predictions = ?t, label_ids = [2, 0, 2]\<rparr>"
  have ok': "tensor_ok ?t" by (simp add: tensor_ok_def)
  then have ok: "tensor_ok (predictions ?p)" by simp
  have w: "0 < cols (predictions ?p)" by simp
  have n: "length (label_ids ?p) = length (rows (predictions ?p))" by simp
  have e: "rows (predictions ?p) \<noteq> []" by simp
  have m: "compute_metric ?p = Inr [(''accuracy'', Finite (2 / 3))]"
    by (simp add: compute_metric_def np_equal_def np_mean_def argmax_row_def)
  have a: "argmax_row [3, 3, 1] = 0"
    by (simp add: argmax_row_def)
  let ?n = "card {i. i < length (label_ids ?p) \<and>
                      label_ids ?p ! i = int (argmax_row (rows (predictions ?p) ! i))}"
  have "compute_metric ?p
        = Inr [(''accuracy'', Finite (of_nat ?n / of_nat (length (label_ids ?p))))]"
    using compute_metric_top1_accuracy [OF ok w n e] by blast
  then have "rat_of_nat ?n / 3 = 2 / 3"
    using m by simp
  then have "?n = 2"
    by simp
  moreover have "card {i. i < 3 \<and> [2, 0, 2] ! i
           = int (argmax_row ([[1, 2, 3], [3, 3, 1], [0, 5, 5]] ! i))} = ?n"
    by (simp add: numeral_3_eq_3)
  ultimately have c: "card {i. i < 3 \<and> [2, 0, 2] ! i
           = int (argmax_row ([[1, 2, 3], [3, 3, 1], [0, 5, 5]] ! i))} = 2"
    by (rule trans [rotated])
  show ?thesis using ok' m a c by blast
qed


text \<open>
  What the script fixes of the sampler of the train dataloader: one weight per example,
  as many draws per epoch as there are weights, drawn with replacement. How the indices
  are then drawn is the library's pseudo-random \<^verbatim>\<open>torch.multinomial\<close>.
\<close>

lemma train_dataloader_sampler:
  assumes "get_train_dataloader self = Inr dl"
  shows "\<exists>ds. train_dataset self = Some ds \<and> dl_dataset dl = ds \<and>
              sampler_weights (dl_sampler dl) = ds_sample_weights ds \<and>
              num_samples (dl_sampler dl) = length (ds_sample_weights ds) \<and>
              replacement (dl_sampler dl)"
  using assms
  by (auto simp: get_train_dataloader_def new_sampler_def new_dataloader_def
      split: option.splits if_splits)

lemma init_dataset_weights:
  assumes "init_dataset texts labels features = Inr ds"
  shows "length (ds_sample_weights ds) = length (ds_labels ds) \<and> ds_labels ds = labels"
proof -
  from assms obtain ws where ws: "compute_sample_weights labels = Inr ws"
    and ds: "ds = \<lparr>ds_texts = texts, ds_features = features, ds_labels = labels,
                   ds_sample_weights = ws\<rparr>"
    by (auto simp: init_dataset_def split: sum.splits)
  from ws have "length ws = length labels"
    by (auto simp: compute_sample_weights_def np_take_def Let_def split: if_splits)
  then show ?thesis using ds by simp
qed


text \<open>
  C8. If the training dataset is missing (\<^verbatim>\<open>None\<close>), constructing the trainer succeeds;
  the failure is the ValueError that \<open>get_train_dataloader\<close> raises, which is the first
  thing \<^verbatim>\<open>train\<close> does, so that no pass over the data is made.
\<close>

theorem missing_train_dataset_raises_in_dataloader:
  "CustomTrainer a None ev = Inr \<lparr>tr_args = a, train_dataset = None, eval_dataset = ev\<rparr> \<and>
   (train_dataset self = None \<longrightarrow>
      get_train_dataloader self = Inl ValueError \<and> train self = Inl ValueError)"
  by (simp add: CustomTrainer_def get_train_dataloader_def train_def)

theorem missing_train_dataset_raises_in_dataloader_witness:
  "train_dataset \<lparr>tr_args = training_args 8 1, train_dataset = None, eval_dataset = None\<rparr> = None \<and>
   get_train_dataloader \<lparr>tr_args = training_args 8 1, train_dataset = None, eval_dataset = None\<rparr>
     = Inl ValueError \<and>
   train \<lparr>tr_args = training_args 8 1, train_dataset = None, eval_dataset = None\<rparr>
     = Inl ValueError"
proof -
  let ?t = "\<lparr>tr_args = training_args 8 1, train_dataset = None, eval_dataset = None\<rparr>"
  have h: "train_dataset ?t = None" by simp
  show ?thesis
    using missing_train_dataset_raises_in_dataloader [of "training_args 8 1" None ?t] h
    by blast
qed


text \<open>
  The trainer of the script's arguments is constructed without a training dataset: the
  constructor returns a trainer and raises nothing.
\<close>

theorem construction_accepts_missing_train_dataset:
  "CustomTrainer (training_args 8 1) None None
     = Inr \<lparr>tr_args = training_args 8 1, train_dataset = None, eval_dataset = None\<rparr> \<and>
   CustomTrainer (training_args 8 1) None None \<noteq> Inl ValueError"
  by (simp add: CustomTrainer_def)

section \<open>Properties of the checkpoint selection\<close>






















end
